theory Spec2Isabelle
  imports Complex_Main "HOL-Library.Word"
begin

unbundle bit_operations_syntax

section \<open>Data model of Buzzer.cpp\<close>

type_synonym u32 = "32 word"
type_synonym u16 = "16 word"

text \<open>
  Build-time constants that Buzzer.cpp uses and that are declared in headers outside the
  source file (Buzzer.hpp, Configuration.hpp, the CMSIS system header). They are
  parameters of the model. In every expression of Buzzer.cpp they are combined with
  \<open>uint32_t\<close> operands, so the arithmetic is unsigned 32-bit whatever their declared
  integer type.
\<close>

record config =
  IS_ER :: bool
  MaxVolume :: u32
  MaxBrightness :: u32
  SystemCoreClock :: u32

definition pwmClockFrequency :: u32 where
  "pwmClockFrequency = 2000000"

definition backlightPwmFrequency :: "config \<Rightarrow> u32" where
  "backlightPwmFrequency cfg = (if IS_ER cfg then 20000 else 300)"

definition backlightPeriod :: "config \<Rightarrow> u32" where
  "backlightPeriod cfg = pwmClockFrequency div backlightPwmFrequency cfg"

text \<open>
  \<open>minPwm\<close> and \<open>maxPwm\<close> are compile-time constants of the source, the truncation to
  \<open>uint32_t\<close> of \<open>backlightPeriod * (3.3 - 1.45) / 3.3\<close> and of
  \<open>backlightPeriod * (3.3 - 0.7) / 3.3\<close>. The quotients are taken here over the
  rationals; they are 56.06... and 78.78... for the period of 100 that the source has
  where it declares them, so the rounding of the compiler's floating-point evaluation
  cannot move either across an integer.
\<close>

definition minPwm :: "config \<Rightarrow> u32" where
  "minPwm cfg =
     word_of_nat (nat \<lfloor>(of_nat (unat (backlightPeriod cfg)) :: rat) * (33 / 10 - 145 / 100) / (33 / 10)\<rfloor>)"

definition maxPwm :: "config \<Rightarrow> u32" where
  "maxPwm cfg =
     word_of_nat (nat \<lfloor>(of_nat (unat (backlightPeriod cfg)) :: rat) * (33 / 10 - 7 / 10) / (33 / 10)\<rfloor>)"

datatype prescaler = PWM_CMR_CPRE_CLKA
datatype align = PWM_ALIGN_LEFT

text \<open>
  The fields of \<open>pwm_channel_t\<close> that Buzzer.cpp initialises or assigns. The other fields
  are zero-initialised and never written.
\<close>

record pwm_channel_t =
  channel :: nat
  ul_prescaler :: prescaler
  alignment :: align
  ul_period :: u32
  ul_duty :: u32

datatype pio_type = PIO_PERIPH_A | PIO_PERIPH_B | PIO_OUTPUT_0
datatype pio_pin = PIO_PB0 | PIO_PB1 | PIO_PB5

text \<open>
  Every call into the PWM driver, the PIO driver and the one-bit port, and every direct
  store to a PWM register, in the order the program makes them.
\<close>

datatype hw_op =
    Pwm_channel_disable nat
  | Pwm_init u32 u32 u32
  | Pio_configure pio_type "pio_pin list"
  | Pwm_channel_init pwm_channel_t
  | PWM_CMR_set_DTE
  | PWM_DT_write u32
  | PWM_DTUPD_write u32
  | Pwm_channel_enable nat
  | BoardTypePort_setMode_InputPullup

text \<open>
  The module's static variables, the log of hardware writes, and the electrical level
  of pin PB13, which the board drives and \<open>boardTypePort.read()\<close> returns.
\<close>

record state =
  buzzer_pwm_channel_instance :: pwm_channel_t
  backlight_pwm_channel_instance :: pwm_channel_t
  beepTicksToGo :: u32
  inBuzzer :: bool
  hw :: "hw_op list"
  PB13 :: bool

datatype error = DivisionByZero

text \<open>The values of the static initialisers, before \<open>Init\<close> has run.\<close>

definition static_state :: "bool \<Rightarrow> state" where
  "static_state pin =
     \<lparr> buzzer_pwm_channel_instance =
         \<lparr> channel = 0, ul_prescaler = PWM_CMR_CPRE_CLKA, alignment = PWM_ALIGN_LEFT,
           ul_period = 0, ul_duty = 0 \<rparr>,
       backlight_pwm_channel_instance =
         \<lparr> channel = 1, ul_prescaler = PWM_CMR_CPRE_CLKA, alignment = PWM_ALIGN_LEFT,
           ul_period = 0, ul_duty = 0 \<rparr>,
       beepTicksToGo = 0,
       inBuzzer = True,
       hw = [],
       PB13 = pin \<rparr>"

text \<open>The board changes the level of PB13; the program's variables are not touched.\<close>

definition set_PB13 :: "bool \<Rightarrow> state \<Rightarrow> state" where
  "set_PB13 level s = s\<lparr>PB13 := level\<rparr>"

section \<open>Operations\<close>

definition Init :: "config \<Rightarrow> state \<Rightarrow> state" where
  "Init cfg s =
     s\<lparr> hw := hw s @
           [Pwm_channel_disable 0,
            Pwm_channel_disable 1,
            Pwm_init pwmClockFrequency 0 (SystemCoreClock cfg),
            Pio_configure PIO_PERIPH_A [PIO_PB1],
            Pio_configure PIO_OUTPUT_0 [PIO_PB0, PIO_PB5]] @
           (if IS_ER cfg then [BoardTypePort_setMode_InputPullup] else []),
        beepTicksToGo := 0,
        inBuzzer := False \<rparr>"

text \<open>
  \<open>volumeTable[MaxVolume] = { 3, 9, 20, 40, 80 }\<close>: an array of \<open>MaxVolume\<close> entries; the
  entries past the fifth initialiser are zero. The declaration compiles only when
  \<open>MaxVolume\<close> is at least 5.
\<close>

definition volumeTable :: "config \<Rightarrow> u32 list" where
  "volumeTable cfg = [3, 9, 20, 40, 80] @ replicate (unat (MaxVolume cfg) - 5) 0"

definition clamp_volume :: "config \<Rightarrow> u32 \<Rightarrow> u32" where
  "clamp_volume cfg volume = (if volume > MaxVolume cfg then MaxVolume cfg else volume)"

definition beep_period :: "u32 \<Rightarrow> u32" where
  "beep_period frequency = pwmClockFrequency div frequency"

definition beep_onTime :: "config \<Rightarrow> u32 \<Rightarrow> u32 \<Rightarrow> u32" where
  "beep_onTime cfg frequency volume =
     (beep_period frequency * (volumeTable cfg ! unat (volume - 1))) div 200"

text \<open>\<open>uint16_t deadTime = period/2 - onTime\<close>: the difference is cut to 16 bits.\<close>

definition beep_deadTime :: "config \<Rightarrow> u32 \<Rightarrow> u32 \<Rightarrow> u16" where
  "beep_deadTime cfg frequency volume =
     ucast (beep_period frequency div 2 - beep_onTime cfg frequency volume)"

text \<open>\<open>(deadTime << 16) | deadTime\<close>, stored to a 32-bit register.\<close>

definition dt_register :: "u16 \<Rightarrow> u32" where
  "dt_register deadTime = push_bit 16 (ucast deadTime) OR ucast deadTime"

definition Beep :: "config \<Rightarrow> u32 \<Rightarrow> u32 \<Rightarrow> u32 \<Rightarrow> state \<Rightarrow> error + state" where
  "Beep cfg frequency ms volume0 s =
     (if volume0 \<noteq> 0 then
        (let volume = clamp_volume cfg volume0;
             s1 = s\<lparr>inBuzzer := True\<rparr>
         in if beepTicksToGo s1 = 0 then
              (if frequency = 0 then Inl DivisionByZero
               else
                 (let period = beep_period frequency;
                      deadTime = beep_deadTime cfg frequency volume;
                      ch = (buzzer_pwm_channel_instance s1)
                             \<lparr>ul_period := period, ul_duty := period div 2\<rparr>
                  in Inr (s1\<lparr> buzzer_pwm_channel_instance := ch,
                              hw := hw s1 @
                                [Pwm_channel_init ch,
                                 PWM_CMR_set_DTE,
                                 PWM_DT_write (dt_register deadTime),
                                 PWM_DTUPD_write (dt_register deadTime),
                                 Pwm_channel_enable 0,
                                 Pio_configure PIO_PERIPH_A [PIO_PB0],
                                 Pio_configure PIO_PERIPH_B [PIO_PB5]],
                              beepTicksToGo := ms,
                              inBuzzer := False \<rparr>)))
            else Inr (s1\<lparr>inBuzzer := False\<rparr>))
      else Inr s)"

definition Tick :: "state \<Rightarrow> state" where
  "Tick s =
     (if \<not> inBuzzer s \<and> beepTicksToGo s \<noteq> 0 then
        (let s1 = s\<lparr>beepTicksToGo := beepTicksToGo s - 1\<rparr>
         in if beepTicksToGo s1 = 0 then
              s1\<lparr>hw := hw s1 @
                    [Pwm_channel_disable 0, Pio_configure PIO_OUTPUT_0 [PIO_PB0, PIO_PB5]]\<rparr>
            else s1)
      else s)"

definition Noisy :: "state \<Rightarrow> bool" where
  "Noisy s = (beepTicksToGo s \<noteq> 0)"

definition duty_full :: "config \<Rightarrow> u32 \<Rightarrow> u32" where
  "duty_full cfg brightness =
     ((backlightPeriod cfg - 1) * (MaxBrightness cfg - brightness)) div MaxBrightness cfg"

definition duty_clamped :: "config \<Rightarrow> u32 \<Rightarrow> u32" where
  "duty_clamped cfg brightness =
     minPwm cfg +
       ((maxPwm cfg - minPwm cfg) * (MaxBrightness cfg - brightness)) div MaxBrightness cfg"

definition backlight_duty :: "config \<Rightarrow> bool \<Rightarrow> u32 \<Rightarrow> u32" where
  "backlight_duty cfg pin brightness =
     (if IS_ER cfg then (if pin then duty_full cfg brightness else duty_clamped cfg brightness)
      else duty_full cfg brightness)"

definition SetBacklight :: "config \<Rightarrow> u32 \<Rightarrow> state \<Rightarrow> error + state" where
  "SetBacklight cfg brightness s =
     (if MaxBrightness cfg = 0 then Inl DivisionByZero
      else
        (let ch = (backlight_pwm_channel_instance s)
                    \<lparr>ul_period := backlightPeriod cfg,
                     ul_duty := backlight_duty cfg (PB13 s) brightness\<rparr>
         in Inr (s\<lparr> backlight_pwm_channel_instance := ch,
                    hw := hw s @ [Pwm_channel_init ch, Pwm_channel_enable 1] \<rparr>)))"

section \<open>Reachable states and concrete configurations\<close>

text \<open>
  The states the program can be in between two calls when the calls run one after the
  other: the operations applied in any order to the statically initialised state, with
  the board free to change the level of PB13 at any moment.
\<close>

inductive reachable :: "config \<Rightarrow> state \<Rightarrow> bool" for cfg :: config where
  start: "reachable cfg (static_state pin)"
| init: "reachable cfg s \<Longrightarrow> reachable cfg (Init cfg s)"
| beep: "reachable cfg s \<Longrightarrow> Beep cfg frequency ms volume s = Inr s' \<Longrightarrow> reachable cfg s'"
| tick: "reachable cfg s \<Longrightarrow> reachable cfg (Tick s)"
| backlight: "reachable cfg s \<Longrightarrow> SetBacklight cfg brightness s = Inr s' \<Longrightarrow> reachable cfg s'"
| board: "reachable cfg s \<Longrightarrow> reachable cfg (set_PB13 level s)"

text \<open>
  Two configurations, one for each value of \<open>IS_ER\<close>, and a state in which a tone has
  50 ticks left, for evaluating the operations on concrete inputs.
\<close>

definition example_config :: config where
  "example_config =
     \<lparr>IS_ER = False, MaxVolume = 5, MaxBrightness = 100, SystemCoreClock = 64000000\<rparr>"

definition example_config_ER :: config where
  "example_config_ER =
     \<lparr>IS_ER = True, MaxVolume = 5, MaxBrightness = 100, SystemCoreClock = 64000000\<rparr>"

definition sounding_state :: state where
  "sounding_state = (static_state True)\<lparr>beepTicksToGo := 50, inBuzzer := False\<rparr>"

section \<open>Runs of calls made before Init\<close>

text \<open>
  The calls other than \<open>Init\<close> that the rest of the firmware and the board can make, and
  the run of a list of them one after the other; a run stops at the first error.
\<close>

datatype call =
    Call_Tick
  | Call_Beep u32 u32 u32
  | Call_SetBacklight u32
  | Board_PB13 bool

definition step :: "config \<Rightarrow> call \<Rightarrow> state \<Rightarrow> error + state" where
  "step cfg c s =
     (case c of
        Call_Tick \<Rightarrow> Inr (Tick s)
      | Call_Beep frequency ms volume \<Rightarrow> Beep cfg frequency ms volume s
      | Call_SetBacklight brightness \<Rightarrow> SetBacklight cfg brightness s
      | Board_PB13 level \<Rightarrow> Inr (set_PB13 level s))"

fun run :: "config \<Rightarrow> call list \<Rightarrow> state \<Rightarrow> error + state" where
  "run cfg [] s = Inr s"
| "run cfg (c # cs) s = (case step cfg c s of Inl e \<Rightarrow> Inl e | Inr s' \<Rightarrow> run cfg cs s')"

text \<open>A call that is not a \<open>Beep\<close> with a volume other than 0.\<close>

definition zero_volume :: "call \<Rightarrow> bool" where
  "zero_volume c = (case c of Call_Beep frequency ms volume \<Rightarrow> volume = 0 | _ \<Rightarrow> True)"

text \<open>A state with the suppression flag set and 7 ticks on the counter.\<close>

definition suppressed_state :: state where
  "suppressed_state = (static_state True)\<lparr>beepTicksToGo := 7\<rparr>"

section \<open>Observations for the backlight claims\<close>

text \<open>The duty that a call of \<open>SetBacklight\<close> left in the backlight channel, if it returned.\<close>

definition programmed_duty :: "error + state \<Rightarrow> u32 option" where
  "programmed_duty r =
     (case r of Inl e \<Rightarrow> None | Inr s \<Rightarrow> Some (ul_duty (backlight_pwm_channel_instance s)))"

text \<open>
  The two backlight inverters of the \<open>IS_ER\<close> boards. The source's comment on \<open>minPwm\<close>
  says that the newer displays, with the MP3302 inverter and the smoothing filter, have
  PB13 grounded; on the others the pull-up that \<open>Init\<close> enables holds the pin high.
\<close>

datatype inverter = Older_inverter | MP3302_inverter

definition PB13_of :: "inverter \<Rightarrow> bool" where
  "PB13_of fitted = (case fitted of MP3302_inverter \<Rightarrow> False | Older_inverter \<Rightarrow> True)"

text \<open>
  The choice of formula as the specification words it, for comparison with
  \<open>backlight_duty\<close>: the full range for the newer inverter, the range from \<open>minPwm\<close> to
  \<open>maxPwm\<close> for the older one.
\<close>

definition spec_variant_duty :: "config \<Rightarrow> inverter \<Rightarrow> u32 \<Rightarrow> u32" where
  "spec_variant_duty cfg fitted brightness =
     (case fitted of
        MP3302_inverter \<Rightarrow> duty_full cfg brightness
      | Older_inverter \<Rightarrow> duty_clamped cfg brightness)"

section \<open>The tick counter\<close>

lemma Tick_suppressed: "inBuzzer s \<Longrightarrow> Tick s = s"
  by (simp add: Tick_def)

lemma Tick_idle: "beepTicksToGo s = 0 \<Longrightarrow> Tick s = s"
  by (simp add: Tick_def)

lemma Tick_inBuzzer: "inBuzzer (Tick s) = inBuzzer s"
  by (simp add: Tick_def Let_def)

lemma Tick_beepTicksToGo:
  "\<not> inBuzzer s \<Longrightarrow> beepTicksToGo s \<noteq> 0 \<Longrightarrow> beepTicksToGo (Tick s) = beepTicksToGo s - 1"
  by (simp add: Tick_def Let_def)

lemma Tick_hw:
  "\<not> inBuzzer s \<Longrightarrow> beepTicksToGo s \<noteq> 0 \<Longrightarrow>
   hw (Tick s) =
     (if beepTicksToGo s = 1
      then hw s @ [Pwm_channel_disable 0, Pio_configure PIO_OUTPUT_0 [PIO_PB0, PIO_PB5]]
      else hw s)"
  by (simp add: Tick_def Let_def)

lemma word_sub_of_nat_neq_0:
  fixes n :: u32
  assumes "k < unat n"
  shows "n - of_nat k \<noteq> 0"
proof
  assume "n - of_nat k = 0"
  then have "n = of_nat k" by simp
  then have "unat n = unat (of_nat k :: u32)" by simp
  moreover have "unat n < 2 ^ 32" using unsigned_less [of n, where 'a = nat] by simp
  then have "k < 2 ^ 32" using assms by simp
  ultimately have "unat n = k" by (simp add: unat_of_nat)
  with assms show False by simp
qed

lemma Ticks_count:
  fixes s :: state
  assumes "\<not> inBuzzer s"
  shows "k \<le> unat (beepTicksToGo s) \<Longrightarrow>
         beepTicksToGo ((Tick ^^ k) s) = beepTicksToGo s - of_nat k \<and>
         \<not> inBuzzer ((Tick ^^ k) s)"
proof (induction k)
  case 0
  then show ?case using assms by simp
next
  case (Suc k)
  then have IH: "beepTicksToGo ((Tick ^^ k) s) = beepTicksToGo s - of_nat k"
    and nb: "\<not> inBuzzer ((Tick ^^ k) s)" by simp_all
  from Suc.prems have "k < unat (beepTicksToGo s)" by simp
  then have "beepTicksToGo s - of_nat k \<noteq> 0" by (rule word_sub_of_nat_neq_0)
  with IH nb have "beepTicksToGo (Tick ((Tick ^^ k) s)) = beepTicksToGo s - of_nat k - 1"
    by (simp add: Tick_beepTicksToGo)
  with nb show ?case by (simp add: Tick_inBuzzer)
qed

lemma Ticks_Noisy:
  assumes "\<not> inBuzzer s" "k < unat (beepTicksToGo s)"
  shows "Noisy ((Tick ^^ k) s)"
  using Ticks_count [OF assms(1), of k] assms(2) word_sub_of_nat_neq_0 [OF assms(2)]
  by (simp add: Noisy_def)

lemma Ticks_silent:
  assumes "\<not> inBuzzer s"
  shows "\<not> Noisy ((Tick ^^ unat (beepTicksToGo s)) s)"
  using Ticks_count [OF assms, of "unat (beepTicksToGo s)"]
  by (simp add: Noisy_def)

lemma Ticks_hw:
  assumes "\<not> inBuzzer s"
  shows "k < unat (beepTicksToGo s) \<Longrightarrow> hw ((Tick ^^ k) s) = hw s"
proof (induction k)
  case 0
  then show ?case by simp
next
  case (Suc k)
  then have IH: "hw ((Tick ^^ k) s) = hw s" and lt: "Suc k < unat (beepTicksToGo s)" by simp_all
  from lt have le: "k \<le> unat (beepTicksToGo s)" by simp
  have cnt: "beepTicksToGo ((Tick ^^ k) s) = beepTicksToGo s - of_nat k"
    and nb: "\<not> inBuzzer ((Tick ^^ k) s)"
    using Ticks_count [OF assms le] by simp_all
  from lt have "k < unat (beepTicksToGo s)" by simp
  then have nz: "beepTicksToGo s - of_nat k \<noteq> 0" by (rule word_sub_of_nat_neq_0)
  have "beepTicksToGo s - of_nat (Suc k) \<noteq> 0" using lt by (rule word_sub_of_nat_neq_0)
  then have "beepTicksToGo s - of_nat k \<noteq> 1" by (auto simp: algebra_simps)
  with cnt nb nz IH show ?case by (simp add: Tick_hw)
qed

lemma Ticks_hw_last:
  assumes "\<not> inBuzzer s" "beepTicksToGo s \<noteq> 0"
  shows "hw ((Tick ^^ unat (beepTicksToGo s)) s) =
         hw s @ [Pwm_channel_disable 0, Pio_configure PIO_OUTPUT_0 [PIO_PB0, PIO_PB5]]"
proof -
  from assms(2) have "unat (beepTicksToGo s) \<noteq> 0" using unat_gt_0 [of "beepTicksToGo s"] by simp
  then obtain k where k: "unat (beepTicksToGo s) = Suc k" by (cases "unat (beepTicksToGo s)") auto
  then have lt: "k < unat (beepTicksToGo s)" by simp
  have cnt: "beepTicksToGo ((Tick ^^ k) s) = beepTicksToGo s - of_nat k"
    and nb: "\<not> inBuzzer ((Tick ^^ k) s)"
    using Ticks_count [OF assms(1), of k] lt by simp_all
  have hwk: "hw ((Tick ^^ k) s) = hw s" using Ticks_hw [OF assms(1) lt] .
  have nz: "beepTicksToGo s - of_nat k \<noteq> 0" using lt by (rule word_sub_of_nat_neq_0)
  have "of_nat (unat (beepTicksToGo s)) = (of_nat (Suc k) :: u32)" using k by simp
  then have "beepTicksToGo s = of_nat (Suc k)" by simp
  then have one: "beepTicksToGo s - of_nat k = 1" by simp
  show ?thesis using cnt nb hwk one by (simp add: k Tick_hw)
qed

subsection \<open>The two branches of Beep\<close>

lemma Beep_idle:
  assumes "beepTicksToGo s = 0" "frequency \<noteq> 0" "volume \<noteq> 0"
  shows "Beep cfg frequency ms volume s =
         Inr (s\<lparr> inBuzzer := False,
                 buzzer_pwm_channel_instance :=
                   (buzzer_pwm_channel_instance s)
                     \<lparr>ul_period := beep_period frequency,
                      ul_duty := beep_period frequency div 2\<rparr>,
                 hw := hw s @
                   [Pwm_channel_init
                      ((buzzer_pwm_channel_instance s)
                         \<lparr>ul_period := beep_period frequency,
                          ul_duty := beep_period frequency div 2\<rparr>),
                    PWM_CMR_set_DTE,
                    PWM_DT_write
                      (dt_register (beep_deadTime cfg frequency (clamp_volume cfg volume))),
                    PWM_DTUPD_write
                      (dt_register (beep_deadTime cfg frequency (clamp_volume cfg volume))),
                    Pwm_channel_enable 0,
                    Pio_configure PIO_PERIPH_A [PIO_PB0],
                    Pio_configure PIO_PERIPH_B [PIO_PB5]],
                 beepTicksToGo := ms \<rparr>)"
  using assms by (simp add: Beep_def Let_def)

lemma Beep_active:
  assumes "beepTicksToGo s \<noteq> 0"
  shows "Beep cfg frequency ms volume s =
         Inr (if volume = 0 then s else s\<lparr>inBuzzer := False\<rparr>)"
  using assms by (simp add: Beep_def Let_def)

lemma Init_idle: "beepTicksToGo (Init cfg s) = 0 \<and> \<not> inBuzzer (Init cfg s)"
  by (simp add: Init_def)

subsection \<open>The suppression flag is set only while no tone sounds\<close>

lemma reachable_suppressed_idle:
  "reachable cfg s \<Longrightarrow> inBuzzer s \<Longrightarrow> beepTicksToGo s = 0"
proof (induction rule: reachable.induct)
  case (start pin)
  then show ?case by (simp add: static_state_def)
next
  case (init s)
  then show ?case by (simp add: Init_def)
next
  case (beep s frequency ms volume s')
  then show ?case by (auto simp: Beep_def Let_def split: if_splits)
next
  case (tick s)
  then show ?case by (simp add: Tick_inBuzzer Tick_suppressed)
next
  case (backlight s brightness s')
  then show ?case by (auto simp: SetBacklight_def Let_def split: if_splits)
next
  case (board s level)
  then show ?case by (simp add: set_PB13_def)
qed

lemma reachable_Noisy_not_suppressed: "reachable cfg s \<Longrightarrow> Noisy s \<Longrightarrow> \<not> inBuzzer s"
  using reachable_suppressed_idle by (auto simp: Noisy_def)

section \<open>Properties of the tone sequencer\<close>

text \<open>
  C2. For every frequency f > 0, duration d > 0 and volume v > 0, Beep(f, d, v) called
  in the idle state that Init leaves makes Noisy() true at once; Noisy() is still true
  after each of the first d - 1 calls of Tick() and is false after the d-th, which is
  the call that disables the channel and sets both piezo pins low.
\<close>

theorem Beep_noisy_for_duration:
  assumes "f \<noteq> 0" "d \<noteq> 0" "v \<noteq> 0"
  shows "\<exists>s1. Beep cfg f d v (Init cfg s0) = Inr s1 \<and>
              Noisy s1 \<and>
              (\<forall>k < unat d. Noisy ((Tick ^^ k) s1)) \<and>
              \<not> Noisy ((Tick ^^ unat d) s1) \<and>
              hw ((Tick ^^ unat d) s1) =
                hw s1 @ [Pwm_channel_disable 0, Pio_configure PIO_OUTPUT_0 [PIO_PB0, PIO_PB5]]"
proof -
  let ?s = "Init cfg s0"
  have idle: "beepTicksToGo ?s = 0" by (simp add: Init_idle)
  obtain s1 where beep: "Beep cfg f d v ?s = Inr s1"
    and cnt: "beepTicksToGo s1 = d" and nb: "\<not> inBuzzer s1"
    using Beep_idle [OF idle assms(1) assms(3), of cfg d] by simp
  have "Noisy s1" using cnt assms(2) by (simp add: Noisy_def)
  moreover have "\<forall>k < unat d. Noisy ((Tick ^^ k) s1)"
    using Ticks_Noisy [OF nb] cnt by simp
  moreover have "\<not> Noisy ((Tick ^^ unat d) s1)"
    using Ticks_silent [OF nb] cnt by simp
  moreover have "hw ((Tick ^^ unat d) s1) =
      hw s1 @ [Pwm_channel_disable 0, Pio_configure PIO_OUTPUT_0 [PIO_PB0, PIO_PB5]]"
    using Ticks_hw_last [OF nb] cnt assms(2) by simp
  ultimately show ?thesis using beep by blast
qed

theorem Beep_noisy_for_duration_witness:
  "(440 :: u32) \<noteq> 0 \<and> (100 :: u32) \<noteq> 0 \<and> (3 :: u32) \<noteq> 0 \<and>
   (\<exists>s1. Beep example_config 440 100 3 (Init example_config (static_state True)) = Inr s1 \<and>
         Noisy s1 \<and>
         (\<forall>k < unat (100 :: u32). Noisy ((Tick ^^ k) s1)) \<and>
         \<not> Noisy ((Tick ^^ unat (100 :: u32)) s1) \<and>
         hw ((Tick ^^ unat (100 :: u32)) s1) =
           hw s1 @ [Pwm_channel_disable 0, Pio_configure PIO_OUTPUT_0 [PIO_PB0, PIO_PB5]])"
  using Beep_noisy_for_duration [of 440 100 3 example_config "static_state True"] by simp

text \<open>
  C3. Whatever the frequency, duration and volume, a Beep call made while a tone is
  active returns with the tick counter, the buzzer channel parameters and the log of
  hardware writes as they were. When the suppression flag is clear, as it is in every
  reachable state with an active tone, the whole state is unchanged, and the tone ends
  after exactly the ticks it had left.
\<close>

theorem Beep_while_noisy:
  assumes "Noisy s"
  shows "\<exists>s'. Beep cfg f d v s = Inr s' \<and>
              beepTicksToGo s' = beepTicksToGo s \<and>
              hw s' = hw s \<and>
              buzzer_pwm_channel_instance s' = buzzer_pwm_channel_instance s \<and>
              (\<not> inBuzzer s \<longrightarrow>
                 s' = s \<and>
                 (\<forall>k < unat (beepTicksToGo s). Noisy ((Tick ^^ k) s')) \<and>
                 \<not> Noisy ((Tick ^^ unat (beepTicksToGo s)) s'))"
proof -
  from assms have "beepTicksToGo s \<noteq> 0" by (simp add: Noisy_def)
  then have eq: "Beep cfg f d v s = Inr (if v = 0 then s else s\<lparr>inBuzzer := False\<rparr>)"
    by (rule Beep_active)
  let ?s' = "if v = 0 then s else s\<lparr>inBuzzer := False\<rparr>"
  have frame: "beepTicksToGo ?s' = beepTicksToGo s \<and> hw ?s' = hw s \<and>
      buzzer_pwm_channel_instance ?s' = buzzer_pwm_channel_instance s"
    by simp
  have rest: "\<not> inBuzzer s \<longrightarrow>
      ?s' = s \<and>
      (\<forall>k < unat (beepTicksToGo s). Noisy ((Tick ^^ k) ?s')) \<and>
      \<not> Noisy ((Tick ^^ unat (beepTicksToGo s)) ?s')"
  proof
    assume nb: "\<not> inBuzzer s"
    then have same: "?s' = s" by simp
    show "?s' = s \<and>
      (\<forall>k < unat (beepTicksToGo s). Noisy ((Tick ^^ k) ?s')) \<and>
      \<not> Noisy ((Tick ^^ unat (beepTicksToGo s)) ?s')"
      unfolding same using Ticks_Noisy [OF nb] Ticks_silent [OF nb] by simp
  qed
  from eq frame rest show ?thesis by blast
qed

theorem Beep_while_noisy_witness:
  "Noisy sounding_state \<and> \<not> inBuzzer sounding_state \<and>
   (\<exists>s'. Beep example_config 880 50 5 sounding_state = Inr s' \<and>
         beepTicksToGo s' = beepTicksToGo sounding_state \<and>
         hw s' = hw sounding_state \<and>
         buzzer_pwm_channel_instance s' = buzzer_pwm_channel_instance sounding_state \<and>
         s' = sounding_state \<and>
         (\<forall>k < unat (beepTicksToGo sounding_state). Noisy ((Tick ^^ k) s')) \<and>
         \<not> Noisy ((Tick ^^ unat (beepTicksToGo sounding_state)) s'))"
proof -
  have n: "Noisy sounding_state" by (simp add: Noisy_def sounding_state_def)
  have b: "\<not> inBuzzer sounding_state" by (simp add: sounding_state_def)
  show ?thesis
    using n b Beep_while_noisy [OF n, of example_config 880 50 5] by auto
qed

text \<open>
  C9. Beep with volume 0 returns the state it was given, for every frequency and
  duration: no static variable changes and nothing is added to the log of hardware
  writes.
\<close>

theorem Beep_volume_zero: "Beep cfg f d 0 s = Inr s"
  by (simp add: Beep_def)

lemma Ticks_suppressed: "inBuzzer s \<Longrightarrow> (Tick ^^ n) s = s"
  by (induction n) (simp_all add: Tick_suppressed)

lemma step_keeps_suppressed:
  assumes "zero_volume c" "inBuzzer s" "beepTicksToGo s = 0" "step cfg c s = Inr s'"
  shows "inBuzzer s' \<and> beepTicksToGo s' = 0"
proof (cases c)
  case Call_Tick
  then show ?thesis using assms by (auto simp: step_def Tick_suppressed)
next
  case (Call_Beep frequency ms volume)
  then show ?thesis using assms by (auto simp: step_def zero_volume_def Beep_def)
next
  case (Call_SetBacklight brightness)
  then show ?thesis
    using assms by (auto simp: step_def SetBacklight_def Let_def split: if_splits)
next
  case (Board_PB13 level)
  then show ?thesis using assms by (auto simp: step_def set_PB13_def)
qed

lemma run_keeps_suppressed:
  "list_all zero_volume cs \<Longrightarrow> inBuzzer s \<Longrightarrow> beepTicksToGo s = 0 \<Longrightarrow>
   run cfg cs s = Inr s' \<Longrightarrow> inBuzzer s' \<and> beepTicksToGo s' = 0"
proof (induction cs arbitrary: s)
  case Nil
  then show ?case by simp
next
  case (Cons c cs)
  from Cons.prems(4) obtain s1 where st: "step cfg c s = Inr s1" and rest: "run cfg cs s1 = Inr s'"
    by (auto split: sum.splits)
  from Cons.prems(1) have zc: "zero_volume c" and zcs: "list_all zero_volume cs" by simp_all
  have "inBuzzer s1 \<and> beepTicksToGo s1 = 0"
    using step_keeps_suppressed [OF zc Cons.prems(2) Cons.prems(3) st] .
  then show ?case using Cons.IH [OF zcs _ _ rest] by simp
qed

text \<open>
  C10, as amended. The static initialisers set the suppression flag and clear the tick
  counter. While the flag is set, whatever the counter holds, any number of Tick calls
  leaves the whole state, the counter and the log of hardware writes included, as it
  was. The flag is still set, and the counter still zero, after every run from the
  statically initialised state of calls of Tick, of SetBacklight and of Beep with
  volume 0, and of changes of the pin, so every Tick call in or after such a run made
  before Init changes nothing.
\<close>

theorem Tick_before_Init_suppressed:
  "inBuzzer (static_state pin) \<and> beepTicksToGo (static_state pin) = 0 \<and>
   (inBuzzer s \<longrightarrow> (Tick ^^ n) s = s) \<and>
   (list_all zero_volume cs \<and> run cfg cs (static_state pin) = Inr s' \<longrightarrow>
      inBuzzer s' \<and> beepTicksToGo s' = 0 \<and> (Tick ^^ n) s' = s')"
proof -
  have st: "inBuzzer (static_state pin) \<and> beepTicksToGo (static_state pin) = 0"
    by (simp add: static_state_def)
  have flag: "inBuzzer s \<longrightarrow> (Tick ^^ n) s = s" by (simp add: Ticks_suppressed)
  have runs: "list_all zero_volume cs \<and> run cfg cs (static_state pin) = Inr s' \<longrightarrow>
      inBuzzer s' \<and> beepTicksToGo s' = 0 \<and> (Tick ^^ n) s' = s'"
  proof
    assume a: "list_all zero_volume cs \<and> run cfg cs (static_state pin) = Inr s'"
    then have "inBuzzer s' \<and> beepTicksToGo s' = 0"
      using run_keeps_suppressed [of cs "static_state pin" cfg s'] st by simp
    then show "inBuzzer s' \<and> beepTicksToGo s' = 0 \<and> (Tick ^^ n) s' = s'"
      by (simp add: Ticks_suppressed)
  qed
  from st flag runs show ?thesis by blast
qed

theorem Tick_before_Init_suppressed_witness:
  "inBuzzer suppressed_state \<and> beepTicksToGo suppressed_state = 7 \<and>
   (Tick ^^ 3) suppressed_state = suppressed_state \<and>
   list_all zero_volume [Call_Tick, Call_Beep 440 100 0, Call_SetBacklight 50, Call_Tick] \<and>
   run example_config [Call_Tick, Call_Beep 440 100 0, Call_SetBacklight 50, Call_Tick]
     (static_state True) =
     Inr ((static_state True)
            \<lparr> backlight_pwm_channel_instance :=
                 \<lparr>channel = 1, ul_prescaler = PWM_CMR_CPRE_CLKA, alignment = PWM_ALIGN_LEFT,
                  ul_period = 6666, ul_duty = 3332\<rparr>,
               hw :=
                 [Pwm_channel_init
                    \<lparr>channel = 1, ul_prescaler = PWM_CMR_CPRE_CLKA,
                     alignment = PWM_ALIGN_LEFT, ul_period = 6666, ul_duty = 3332\<rparr>,
                  Pwm_channel_enable 1] \<rparr>) \<and>
   (Tick ^^ 3)
     ((static_state True)
        \<lparr> backlight_pwm_channel_instance :=
             \<lparr>channel = 1, ul_prescaler = PWM_CMR_CPRE_CLKA, alignment = PWM_ALIGN_LEFT,
              ul_period = 6666, ul_duty = 3332\<rparr>,
           hw :=
             [Pwm_channel_init
                \<lparr>channel = 1, ul_prescaler = PWM_CMR_CPRE_CLKA,
                 alignment = PWM_ALIGN_LEFT, ul_period = 6666, ul_duty = 3332\<rparr>,
              Pwm_channel_enable 1] \<rparr>) =
     (static_state True)
        \<lparr> backlight_pwm_channel_instance :=
             \<lparr>channel = 1, ul_prescaler = PWM_CMR_CPRE_CLKA, alignment = PWM_ALIGN_LEFT,
              ul_period = 6666, ul_duty = 3332\<rparr>,
           hw :=
             [Pwm_channel_init
                \<lparr>channel = 1, ul_prescaler = PWM_CMR_CPRE_CLKA,
                 alignment = PWM_ALIGN_LEFT, ul_period = 6666, ul_duty = 3332\<rparr>,
              Pwm_channel_enable 1] \<rparr>"
proof -
  let ?cs = "[Call_Tick, Call_Beep 440 100 0, Call_SetBacklight 50, Call_Tick]"
  let ?s' = "(static_state True)
        \<lparr> backlight_pwm_channel_instance :=
             \<lparr>channel = 1, ul_prescaler = PWM_CMR_CPRE_CLKA, alignment = PWM_ALIGN_LEFT,
              ul_period = 6666, ul_duty = 3332\<rparr>,
           hw :=
             [Pwm_channel_init
                \<lparr>channel = 1, ul_prescaler = PWM_CMR_CPRE_CLKA,
                 alignment = PWM_ALIGN_LEFT, ul_period = 6666, ul_duty = 3332\<rparr>,
              Pwm_channel_enable 1] \<rparr>"
  have z: "list_all zero_volume ?cs" by (simp add: zero_volume_def)
  have r: "run example_config ?cs (static_state True) = Inr ?s'"
    by (simp add: step_def Tick_def Beep_def SetBacklight_def Let_def static_state_def
        example_config_def backlight_duty_def duty_full_def backlightPeriod_def
        backlightPwmFrequency_def pwmClockFrequency_def)
  have f: "inBuzzer suppressed_state \<and> beepTicksToGo suppressed_state = 7"
    by (simp add: suppressed_state_def static_state_def)
  show ?thesis
    using z r f
      Tick_before_Init_suppressed [of True suppressed_state 3 ?cs example_config ?s']
    by simp
qed

text \<open>
  C10 as stated fails: Beep(440, 2, 3) made before Init sets the counter to 2 and clears
  the flag; the first Tick after it, still before Init, takes the counter to 1, and the
  second disables the channel and sets both piezo pins low.
\<close>

theorem Tick_before_Init_counterexample:
  "map_sum id beepTicksToGo
     (run example_config [Call_Beep 440 2 3] (static_state True)) = Inr 2 \<and>
   map_sum id beepTicksToGo
     (run example_config [Call_Beep 440 2 3, Call_Tick] (static_state True)) = Inr 1 \<and>
   map_sum id hw
     (run example_config [Call_Beep 440 2 3, Call_Tick, Call_Tick] (static_state True)) =
     Inr [Pwm_channel_init
            \<lparr>channel = 0, ul_prescaler = PWM_CMR_CPRE_CLKA, alignment = PWM_ALIGN_LEFT,
             ul_period = 4545, ul_duty = 2272\<rparr>,
          PWM_CMR_set_DTE,
          PWM_DT_write (1818 * 65536 + 1818),
          PWM_DTUPD_write (1818 * 65536 + 1818),
          Pwm_channel_enable 0,
          Pio_configure PIO_PERIPH_A [PIO_PB0],
          Pio_configure PIO_PERIPH_B [PIO_PB5],
          Pwm_channel_disable 0,
          Pio_configure PIO_OUTPUT_0 [PIO_PB0, PIO_PB5]]"
  by (simp add: step_def Tick_def Beep_def Let_def static_state_def example_config_def
      clamp_volume_def beep_deadTime_def beep_onTime_def beep_period_def
      pwmClockFrequency_def dt_register_def volumeTable_def)

section \<open>Arithmetic of the tone parameters\<close>

lemma dt_register_fields:
  "drop_bit 16 (dt_register d) = ucast d \<and> take_bit 16 (dt_register d) = ucast d"
  unfolding dt_register_def
  by (auto simp: bit_eq_iff bit_simps dest: bit_imp_le_length)

lemma dt_register_nat: "dt_register d = of_nat (unat d * 65536 + unat d)"
proof -
  have "push_bit 16 (ucast d :: u32) AND ucast d = 0"
    by (auto simp: bit_eq_iff bit_simps dest: bit_imp_le_length)
  then have "push_bit 16 (ucast d :: u32) OR ucast d = push_bit 16 (ucast d) + ucast d"
    by (simp add: disjunctive_add_eq_or)
  then show ?thesis by (simp add: dt_register_def push_bit_eq_mult)
qed

lemma unat_beep_period:
  "frequency \<noteq> 0 \<Longrightarrow> unat (beep_period frequency) = 2000000 div unat frequency"
  by (simp add: beep_period_def pwmClockFrequency_def unat_div)

lemma beep_period_bound: "unat (beep_period frequency) \<le> 2000000"
proof -
  have "unat (beep_period frequency) = 2000000 div unat frequency"
    by (simp add: beep_period_def pwmClockFrequency_def unat_div)
  then show ?thesis by (simp add: div_le_dividend)
qed

lemma length_volumeTable: "5 \<le> MaxVolume cfg \<Longrightarrow> length (volumeTable cfg) = unat (MaxVolume cfg)"
  by (simp add: volumeTable_def word_le_nat_alt)

lemma volumeTable_entries: "x \<in> set (volumeTable cfg) \<Longrightarrow> unat x \<le> 80"
  by (auto simp: volumeTable_def)

lemma volume_index:
  assumes "5 \<le> MaxVolume cfg" "1 \<le> volume" "volume \<le> MaxVolume cfg"
  shows "unat (volume - 1) = unat volume - 1" "unat (volume - 1) < length (volumeTable cfg)"
proof -
  show a: "unat (volume - 1) = unat volume - 1" using assms(2) by (simp add: unat_sub)
  have "1 \<le> unat volume" using assms(2) by (simp add: word_le_nat_alt)
  moreover have "unat volume \<le> unat (MaxVolume cfg)" using assms(3) by (simp add: word_le_nat_alt)
  ultimately show "unat (volume - 1) < length (volumeTable cfg)"
    using a length_volumeTable [OF assms(1)] by simp
qed

lemma volumeTable_bound:
  assumes "5 \<le> MaxVolume cfg" "1 \<le> volume" "volume \<le> MaxVolume cfg"
  shows "unat (volumeTable cfg ! unat (volume - 1)) \<le> 80"
  by (rule volumeTable_entries [of _ cfg]) (rule nth_mem [OF volume_index(2) [OF assms]])

lemma unat_beep_onTime:
  assumes "5 \<le> MaxVolume cfg" "1 \<le> volume" "volume \<le> MaxVolume cfg"
  shows "unat (beep_onTime cfg frequency volume) =
         (unat (beep_period frequency) * unat (volumeTable cfg ! (unat volume - 1))) div 200"
proof -
  let ?t = "volumeTable cfg ! unat (volume - 1)"
  have "unat (beep_period frequency) * unat ?t \<le> 2000000 * 80"
    using beep_period_bound volumeTable_bound [OF assms] by (rule mult_le_mono)
  then have "unat (beep_period frequency) * unat ?t < 2 ^ 32" by simp
  then have "unat (beep_period frequency * ?t) = unat (beep_period frequency) * unat ?t"
    by (simp add: unat_mult_lem [THEN iffD1])
  then show ?thesis by (simp add: beep_onTime_def unat_div volume_index(1) [OF assms])
qed

lemma onTime_nat_le:
  fixes P T :: nat
  assumes "T \<le> 80"
  shows "(P * T) div 200 \<le> P div 2" "6 \<le> P \<Longrightarrow> (P * T) div 200 < P div 2"
proof -
  have "P * T \<le> P * 80" using assms by simp
  then have le: "(P * T) div 200 \<le> (P * 80) div 200" by (rule div_le_mono)
  have "(P * 80) div 200 \<le> P div 2" by arith
  with le show "(P * T) div 200 \<le> P div 2" by simp
  assume "6 \<le> P"
  then have "(P * 80) div 200 < P div 2" by arith
  with le show "(P * T) div 200 < P div 2" by simp
qed

lemma unat_beep_deadTime:
  "unat (beep_deadTime cfg frequency volume) =
   unat (beep_period frequency div 2 - beep_onTime cfg frequency volume) mod 65536"
  by (simp add: beep_deadTime_def unsigned_ucast_eq take_bit_eq_mod)

lemma onTime_le_half:
  assumes "5 \<le> MaxVolume cfg" "1 \<le> volume" "volume \<le> MaxVolume cfg"
  shows "beep_onTime cfg frequency volume \<le> beep_period frequency div 2"
    and "6 \<le> beep_period frequency \<Longrightarrow>
         beep_onTime cfg frequency volume < beep_period frequency div 2"
proof -
  let ?P = "unat (beep_period frequency)"
  let ?T = "unat (volumeTable cfg ! (unat volume - 1))"
  have T: "?T \<le> 80" using volumeTable_bound [OF assms] volume_index(1) [OF assms] by simp
  have on: "unat (beep_onTime cfg frequency volume) = (?P * ?T) div 200"
    by (rule unat_beep_onTime [OF assms])
  have half: "unat (beep_period frequency div 2) = ?P div 2" by (simp add: unat_div)
  show "beep_onTime cfg frequency volume \<le> beep_period frequency div 2"
    using onTime_nat_le(1) [OF T, of ?P] on half by (simp add: word_le_nat_alt)
  assume "6 \<le> beep_period frequency"
  then have "6 \<le> ?P" by (simp add: word_le_nat_alt)
  then show "beep_onTime cfg frequency volume < beep_period frequency div 2"
    using onTime_nat_le(2) [OF T, of ?P] on half by (simp add: word_less_nat_alt)
qed

text \<open>
  C4, as amended. For every frequency other than 0 and every volume from 1 to MaxVolume
  the on-time is at most half the period, so the dead time \<open>period/2 - onTime\<close> never
  goes below zero, and it is strictly less for every frequency up to 333333 Hz, where
  the period is at least 6 clock ticks. The period and the on-time are the quotients
  over the natural numbers: nothing wraps around in 32 bits.
\<close>

theorem onTime_within_half_period:
  assumes "5 \<le> MaxVolume cfg" "frequency \<noteq> 0" "1 \<le> volume" "volume \<le> MaxVolume cfg"
  shows "beep_onTime cfg frequency volume \<le> beep_period frequency div 2 \<and>
         (frequency \<le> 333333 \<longrightarrow>
            beep_onTime cfg frequency volume < beep_period frequency div 2) \<and>
         unat (beep_period frequency) = 2000000 div unat frequency \<and>
         unat (beep_onTime cfg frequency volume) =
           (unat (beep_period frequency) * unat (volumeTable cfg ! (unat volume - 1))) div 200"
proof -
  have P: "unat (beep_period frequency) = 2000000 div unat frequency"
    using assms(2) by (rule unat_beep_period)
  have "frequency \<le> 333333 \<longrightarrow> 6 \<le> beep_period frequency"
  proof
    assume "frequency \<le> 333333"
    then have "unat frequency \<le> 333333" by (simp add: word_le_nat_alt)
    moreover have "0 < unat frequency" using assms(2) by (simp add: unat_gt_0)
    ultimately have "6 \<le> 2000000 div unat frequency"
      by (simp add: less_eq_div_iff_mult_less_eq)
    then show "6 \<le> beep_period frequency" using P by (simp add: word_le_nat_alt)
  qed
  then show ?thesis
    using onTime_le_half [OF assms(1) assms(3) assms(4), of frequency] P
      unat_beep_onTime [OF assms(1) assms(3) assms(4), of frequency]
    by blast
qed

theorem onTime_within_half_period_witness:
  "5 \<le> MaxVolume example_config \<and> (440 :: u32) \<noteq> 0 \<and> (1 :: u32) \<le> 3 \<and>
   3 \<le> MaxVolume example_config \<and>
   beep_onTime example_config 440 3 \<le> beep_period 440 div 2 \<and>
   ((440 :: u32) \<le> 333333) \<and>
   beep_onTime example_config 440 3 < beep_period 440 div 2"
  using onTime_within_half_period [of example_config 440 3]
  by (simp add: example_config_def)

text \<open>
  C4 as stated fails: at 400000 Hz and volume 5 the period is 5, the on-time is
  \<open>5 * 80 / 200 = 2\<close>, and half the period is 2 as well.
\<close>

theorem onTime_strict_counterexample:
  "5 \<le> MaxVolume example_config \<and> (400000 :: u32) \<noteq> 0 \<and> (1 :: u32) \<le> 5 \<and>
   5 \<le> MaxVolume example_config \<and>
   beep_period 400000 = 5 \<and> beep_onTime example_config 400000 5 = 2 \<and>
   beep_period 400000 div 2 = 2 \<and>
   \<not> beep_onTime example_config 400000 5 < beep_period 400000 div 2"
  by (simp add: example_config_def beep_onTime_def beep_period_def pwmClockFrequency_def
      volumeTable_def)

text \<open>
  C1, as amended. For every call of Beep with a frequency other than 0 and a volume
  from 1 to MaxVolume, made while no tone is active, the channel is initialised with
  period \<open>P = 2000000 / frequency\<close> and duty \<open>P/2\<close>; with
  \<open>On = P * volumeTable[volume-1] / 200\<close>, the dead time \<open>D\<close> is \<open>P/2 - On\<close> cut to 16
  bits, which is \<open>P/2 - On\<close> itself for every frequency from 16 Hz up; \<open>D\<close> is written to
  both halves of the dead-time register and of its update register; the channel is
  enabled, both pins are given to the PWM peripheral, the tick counter is set to the
  duration and the suppression flag is left clear.
\<close>

theorem Beep_programs_pwm:
  assumes "5 \<le> MaxVolume cfg" "frequency \<noteq> 0" "1 \<le> volume" "volume \<le> MaxVolume cfg"
    and "beepTicksToGo s = 0"
  shows "let P = 2000000 div unat frequency;
             On = (P * unat (volumeTable cfg ! (unat volume - 1))) div 200;
             D = (P div 2 - On) mod 65536;
             ch = (buzzer_pwm_channel_instance s)
                    \<lparr>ul_period := of_nat P, ul_duty := of_nat (P div 2)\<rparr>
         in Beep cfg frequency ms volume s =
              Inr (s\<lparr> inBuzzer := False,
                      buzzer_pwm_channel_instance := ch,
                      hw := hw s @
                        [Pwm_channel_init ch,
                         PWM_CMR_set_DTE,
                         PWM_DT_write (of_nat (D * 65536 + D)),
                         PWM_DTUPD_write (of_nat (D * 65536 + D)),
                         Pwm_channel_enable 0,
                         Pio_configure PIO_PERIPH_A [PIO_PB0],
                         Pio_configure PIO_PERIPH_B [PIO_PB5]],
                      beepTicksToGo := ms \<rparr>) \<and>
            On \<le> P div 2 \<and>
            (16 \<le> frequency \<longrightarrow> D = P div 2 - On)"
proof -
  let ?P = "2000000 div unat frequency"
  let ?On = "(?P * unat (volumeTable cfg ! (unat volume - 1))) div 200"
  let ?D = "(?P div 2 - ?On) mod 65536"
  have vol: "volume \<noteq> 0" using assms(3) by auto
  have clamp: "clamp_volume cfg volume = volume" using assms(4) by (auto simp: clamp_volume_def)
  have P: "unat (beep_period frequency) = ?P" using assms(2) by (rule unat_beep_period)
  have On: "unat (beep_onTime cfg frequency volume) = ?On"
    using unat_beep_onTime [OF assms(1,3,4), of frequency] P by simp
  have le: "beep_onTime cfg frequency volume \<le> beep_period frequency div 2"
    by (rule onTime_le_half(1) [OF assms(1,3,4)])
  have half: "unat (beep_period frequency div 2) = ?P div 2" using P by (simp add: unat_div)
  have diff: "unat (beep_period frequency div 2 - beep_onTime cfg frequency volume) = ?P div 2 - ?On"
    using unat_sub [OF le] half On by simp
  have D: "unat (beep_deadTime cfg frequency volume) = ?D"
    using unat_beep_deadTime [of cfg frequency volume] diff by simp
  have period: "beep_period frequency = of_nat ?P"
    using P by (metis of_nat_unat ucast_id)
  have duty: "beep_period frequency div 2 = of_nat (?P div 2)"
    using half by (metis of_nat_unat ucast_id)
  have dt: "dt_register (beep_deadTime cfg frequency volume) = of_nat (?D * 65536 + ?D)"
    using dt_register_nat [of "beep_deadTime cfg frequency volume"] D by simp
  have beep: "Beep cfg frequency ms volume s =
      Inr (s\<lparr> inBuzzer := False,
              buzzer_pwm_channel_instance :=
                (buzzer_pwm_channel_instance s)
                  \<lparr>ul_period := of_nat ?P, ul_duty := of_nat (?P div 2)\<rparr>,
              hw := hw s @
                [Pwm_channel_init
                   ((buzzer_pwm_channel_instance s)
                      \<lparr>ul_period := of_nat ?P, ul_duty := of_nat (?P div 2)\<rparr>),
                 PWM_CMR_set_DTE,
                 PWM_DT_write (of_nat (?D * 65536 + ?D)),
                 PWM_DTUPD_write (of_nat (?D * 65536 + ?D)),
                 Pwm_channel_enable 0,
                 Pio_configure PIO_PERIPH_A [PIO_PB0],
                 Pio_configure PIO_PERIPH_B [PIO_PB5]],
              beepTicksToGo := ms \<rparr>)"
    unfolding Beep_idle [OF assms(5) assms(2) vol] clamp dt duty
    unfolding period ..
  have onle: "?On \<le> ?P div 2" using le half On by (simp add: word_le_nat_alt)
  have small: "16 \<le> frequency \<longrightarrow> ?D = ?P div 2 - ?On"
  proof
    assume "16 \<le> frequency"
    then have "16 \<le> unat frequency" by (simp add: word_le_nat_alt)
    then have "2000000 div unat frequency \<le> 2000000 div 16" by (rule div_le_mono2 [rotated]) simp
    then have "?P div 2 - ?On < 65536" by simp
    then show "?D = ?P div 2 - ?On" by simp
  qed
  from beep onle small show ?thesis by (simp only: Let_def) 
qed

theorem Beep_programs_pwm_witness:
  "5 \<le> MaxVolume example_config \<and> (440 :: u32) \<noteq> 0 \<and> (1 :: u32) \<le> 3 \<and>
   3 \<le> MaxVolume example_config \<and>
   beepTicksToGo (Init example_config (static_state True)) = 0 \<and> (16 :: u32) \<le> 440 \<and>
   map_sum id hw (Beep example_config 440 100 3 (Init example_config (static_state True))) =
     Inr (hw (Init example_config (static_state True)) @
          [Pwm_channel_init
             \<lparr>channel = 0, ul_prescaler = PWM_CMR_CPRE_CLKA, alignment = PWM_ALIGN_LEFT,
              ul_period = 4545, ul_duty = 2272\<rparr>,
           PWM_CMR_set_DTE,
           PWM_DT_write (1818 * 65536 + 1818),
           PWM_DTUPD_write (1818 * 65536 + 1818),
           Pwm_channel_enable 0,
           Pio_configure PIO_PERIPH_A [PIO_PB0],
           Pio_configure PIO_PERIPH_B [PIO_PB5]]) \<and>
   map_sum id beepTicksToGo
     (Beep example_config 440 100 3 (Init example_config (static_state True))) = Inr 100"
  using Beep_programs_pwm
    [of example_config 440 3 "Init example_config (static_state True)" 100]
  by (simp add: example_config_def Init_def static_state_def volumeTable_def Let_def)

text \<open>
  C1 as stated fails: at 1 Hz and volume 1, \<open>period/2 - onTime\<close> is 970000, and the
  dead time written to both halves of the register is 52496, its low 16 bits.
\<close>

theorem Beep_deadTime_counterexample:
  "5 \<le> MaxVolume example_config \<and> (1 :: u32) \<noteq> 0 \<and> (1 :: u32) \<le> 1 \<and>
   1 \<le> MaxVolume example_config \<and>
   beepTicksToGo (Init example_config (static_state True)) = 0 \<and>
   beep_period 1 div 2 - beep_onTime example_config 1 1 = 970000 \<and>
   map_sum id hw (Beep example_config 1 10 1 (Init example_config (static_state True))) =
     Inr (hw (Init example_config (static_state True)) @
          [Pwm_channel_init
             \<lparr>channel = 0, ul_prescaler = PWM_CMR_CPRE_CLKA, alignment = PWM_ALIGN_LEFT,
              ul_period = 2000000, ul_duty = 1000000\<rparr>,
           PWM_CMR_set_DTE,
           PWM_DT_write (52496 * 65536 + 52496),
           PWM_DTUPD_write (52496 * 65536 + 52496),
           Pwm_channel_enable 0,
           Pio_configure PIO_PERIPH_A [PIO_PB0],
           Pio_configure PIO_PERIPH_B [PIO_PB5]]) \<and>
   (52496 :: u32) \<noteq> 970000"
  by (simp add: example_config_def Init_def static_state_def volumeTable_def Let_def
      Beep_def clamp_volume_def beep_deadTime_def beep_onTime_def beep_period_def
      pwmClockFrequency_def dt_register_def)

subsection \<open>What a call on an idle state programs, for any requested volume\<close>

lemma Beep_idle_nat:
  assumes "5 \<le> MaxVolume cfg" "frequency \<noteq> 0" "1 \<le> volume" "volume \<le> MaxVolume cfg"
    and "beepTicksToGo s = 0" "clamp_volume cfg v = volume" "v \<noteq> 0"
  shows "let P = 2000000 div unat frequency;
             On = (P * unat (volumeTable cfg ! (unat volume - 1))) div 200;
             D = (P div 2 - On) mod 65536;
             ch = (buzzer_pwm_channel_instance s)
                    \<lparr>ul_period := of_nat P, ul_duty := of_nat (P div 2)\<rparr>
         in Beep cfg frequency ms v s =
              Inr (s\<lparr> inBuzzer := False,
                      buzzer_pwm_channel_instance := ch,
                      hw := hw s @
                        [Pwm_channel_init ch,
                         PWM_CMR_set_DTE,
                         PWM_DT_write (of_nat (D * 65536 + D)),
                         PWM_DTUPD_write (of_nat (D * 65536 + D)),
                         Pwm_channel_enable 0,
                         Pio_configure PIO_PERIPH_A [PIO_PB0],
                         Pio_configure PIO_PERIPH_B [PIO_PB5]],
                      beepTicksToGo := ms \<rparr>)"
proof -
  let ?P = "2000000 div unat frequency"
  let ?On = "(?P * unat (volumeTable cfg ! (unat volume - 1))) div 200"
  let ?D = "(?P div 2 - ?On) mod 65536"
  have P: "unat (beep_period frequency) = ?P" using assms(2) by (rule unat_beep_period)
  have On: "unat (beep_onTime cfg frequency volume) = ?On"
    using unat_beep_onTime [OF assms(1,3,4), of frequency] P by simp
  have le: "beep_onTime cfg frequency volume \<le> beep_period frequency div 2"
    by (rule onTime_le_half(1) [OF assms(1,3,4)])
  have half: "unat (beep_period frequency div 2) = ?P div 2" using P by (simp add: unat_div)
  have diff: "unat (beep_period frequency div 2 - beep_onTime cfg frequency volume) = ?P div 2 - ?On"
    using unat_sub [OF le] half On by simp
  have D: "unat (beep_deadTime cfg frequency volume) = ?D"
    using unat_beep_deadTime [of cfg frequency volume] diff by simp
  have period: "beep_period frequency = of_nat ?P"
    using P by (metis of_nat_unat ucast_id)
  have duty: "beep_period frequency div 2 = of_nat (?P div 2)"
    using half by (metis of_nat_unat ucast_id)
  have dt: "dt_register (beep_deadTime cfg frequency volume) = of_nat (?D * 65536 + ?D)"
    using dt_register_nat [of "beep_deadTime cfg frequency volume"] D by simp
  have "Beep cfg frequency ms v s =
      Inr (s\<lparr> inBuzzer := False,
              buzzer_pwm_channel_instance :=
                (buzzer_pwm_channel_instance s)
                  \<lparr>ul_period := of_nat ?P, ul_duty := of_nat (?P div 2)\<rparr>,
              hw := hw s @
                [Pwm_channel_init
                   ((buzzer_pwm_channel_instance s)
                      \<lparr>ul_period := of_nat ?P, ul_duty := of_nat (?P div 2)\<rparr>),
                 PWM_CMR_set_DTE,
                 PWM_DT_write (of_nat (?D * 65536 + ?D)),
                 PWM_DTUPD_write (of_nat (?D * 65536 + ?D)),
                 Pwm_channel_enable 0,
                 Pio_configure PIO_PERIPH_A [PIO_PB0],
                 Pio_configure PIO_PERIPH_B [PIO_PB5]],
              beepTicksToGo := ms \<rparr>)"
    unfolding Beep_idle [OF assms(5) assms(2) assms(7)] assms(6) dt duty
    unfolding period ..
  then show ?thesis by (simp only: Let_def)
qed

text \<open>
  C8. A volume above MaxVolume is clamped to MaxVolume, not rejected. For every
  frequency, duration and state the call returns what the call with volume MaxVolume
  returns, be it the new state or the division error of a zero frequency. On an idle
  state with a frequency other than 0 it starts the tone: the period is
  \<open>P = 2000000 / frequency\<close>, the duty \<open>P/2\<close>, the on-time is taken from the last entry of
  the volume table, \<open>On = P * volumeTable[MaxVolume-1] / 200\<close>, the dead time
  \<open>P/2 - On\<close> cut to 16 bits goes to both halves of the dead-time registers, the channel
  is enabled, the pins are given to the PWM peripheral and the tick counter is set to
  the duration. MaxVolume is at least 5 in any configuration for which the volume table
  compiles.
\<close>

theorem Beep_volume_above_max:
  assumes "MaxVolume cfg \<noteq> 0" "MaxVolume cfg < v"
  shows "Beep cfg f d v s = Beep cfg f d (MaxVolume cfg) s \<and>
         (5 \<le> MaxVolume cfg \<and> f \<noteq> 0 \<and> beepTicksToGo s = 0 \<longrightarrow>
            (let P = 2000000 div unat f;
                 On = (P * unat (volumeTable cfg ! (unat (MaxVolume cfg) - 1))) div 200;
                 D = (P div 2 - On) mod 65536;
                 ch = (buzzer_pwm_channel_instance s)
                        \<lparr>ul_period := of_nat P, ul_duty := of_nat (P div 2)\<rparr>
             in Beep cfg f d v s =
                  Inr (s\<lparr> inBuzzer := False,
                          buzzer_pwm_channel_instance := ch,
                          hw := hw s @
                            [Pwm_channel_init ch,
                             PWM_CMR_set_DTE,
                             PWM_DT_write (of_nat (D * 65536 + D)),
                             PWM_DTUPD_write (of_nat (D * 65536 + D)),
                             Pwm_channel_enable 0,
                             Pio_configure PIO_PERIPH_A [PIO_PB0],
                             Pio_configure PIO_PERIPH_B [PIO_PB5]],
                          beepTicksToGo := d \<rparr>)))"
proof -
  from assms have v: "v \<noteq> 0" by auto
  have clamp: "clamp_volume cfg v = MaxVolume cfg" using assms(2) by (simp add: clamp_volume_def)
  have "clamp_volume cfg (MaxVolume cfg) = MaxVolume cfg" by (simp add: clamp_volume_def)
  with clamp v assms(1) have same: "Beep cfg f d v s = Beep cfg f d (MaxVolume cfg) s"
    by (simp add: Beep_def)
  have one: "1 \<le> MaxVolume cfg" using assms(1) by (simp add: word_le_nat_alt unat_gt_0 Suc_le_eq)
  have prog: "5 \<le> MaxVolume cfg \<and> f \<noteq> 0 \<and> beepTicksToGo s = 0 \<longrightarrow>
            (let P = 2000000 div unat f;
                 On = (P * unat (volumeTable cfg ! (unat (MaxVolume cfg) - 1))) div 200;
                 D = (P div 2 - On) mod 65536;
                 ch = (buzzer_pwm_channel_instance s)
                        \<lparr>ul_period := of_nat P, ul_duty := of_nat (P div 2)\<rparr>
             in Beep cfg f d v s =
                  Inr (s\<lparr> inBuzzer := False,
                          buzzer_pwm_channel_instance := ch,
                          hw := hw s @
                            [Pwm_channel_init ch,
                             PWM_CMR_set_DTE,
                             PWM_DT_write (of_nat (D * 65536 + D)),
                             PWM_DTUPD_write (of_nat (D * 65536 + D)),
                             Pwm_channel_enable 0,
                             Pio_configure PIO_PERIPH_A [PIO_PB0],
                             Pio_configure PIO_PERIPH_B [PIO_PB5]],
                          beepTicksToGo := d \<rparr>))"
  proof
    assume a: "5 \<le> MaxVolume cfg \<and> f \<noteq> 0 \<and> beepTicksToGo s = 0"
    show "let P = 2000000 div unat f;
                 On = (P * unat (volumeTable cfg ! (unat (MaxVolume cfg) - 1))) div 200;
                 D = (P div 2 - On) mod 65536;
                 ch = (buzzer_pwm_channel_instance s)
                        \<lparr>ul_period := of_nat P, ul_duty := of_nat (P div 2)\<rparr>
             in Beep cfg f d v s =
                  Inr (s\<lparr> inBuzzer := False,
                          buzzer_pwm_channel_instance := ch,
                          hw := hw s @
                            [Pwm_channel_init ch,
                             PWM_CMR_set_DTE,
                             PWM_DT_write (of_nat (D * 65536 + D)),
                             PWM_DTUPD_write (of_nat (D * 65536 + D)),
                             Pwm_channel_enable 0,
                             Pio_configure PIO_PERIPH_A [PIO_PB0],
                             Pio_configure PIO_PERIPH_B [PIO_PB5]],
                          beepTicksToGo := d \<rparr>)"
      using a by (intro Beep_idle_nat one clamp v) simp_all
  qed
  from same prog show ?thesis by blast
qed

theorem Beep_volume_above_max_witness:
  "MaxVolume example_config \<noteq> 0 \<and> MaxVolume example_config < 9 \<and>
   5 \<le> MaxVolume example_config \<and> (440 :: u32) \<noteq> 0 \<and>
   beepTicksToGo (Init example_config (static_state True)) = 0 \<and>
   Beep example_config 440 100 9 (Init example_config (static_state True)) =
   Beep example_config 440 100 (MaxVolume example_config)
     (Init example_config (static_state True)) \<and>
   map_sum id hw (Beep example_config 440 100 9 (Init example_config (static_state True))) =
     Inr (hw (Init example_config (static_state True)) @
          [Pwm_channel_init
             \<lparr>channel = 0, ul_prescaler = PWM_CMR_CPRE_CLKA, alignment = PWM_ALIGN_LEFT,
              ul_period = 4545, ul_duty = 2272\<rparr>,
           PWM_CMR_set_DTE,
           PWM_DT_write (454 * 65536 + 454),
           PWM_DTUPD_write (454 * 65536 + 454),
           Pwm_channel_enable 0,
           Pio_configure PIO_PERIPH_A [PIO_PB0],
           Pio_configure PIO_PERIPH_B [PIO_PB5]]) \<and>
   map_sum id beepTicksToGo
     (Beep example_config 440 100 9 (Init example_config (static_state True))) = Inr 100"
proof -
  have nz: "MaxVolume example_config \<noteq> 0" and above: "MaxVolume example_config < 9"
    and five: "5 \<le> MaxVolume example_config"
    by (simp_all add: example_config_def)
  have idle: "beepTicksToGo (Init example_config (static_state True)) = 0"
    by (simp add: Init_def)
  note both = Beep_volume_above_max
    [OF nz above, of 440 100 "Init example_config (static_state True)"]
  from both have same:
    "Beep example_config 440 100 9 (Init example_config (static_state True)) =
     Beep example_config 440 100 (MaxVolume example_config)
       (Init example_config (static_state True))"
    by (rule conjunct1)
  from both [THEN conjunct2] five idle have prog:
    "map_sum id hw (Beep example_config 440 100 9 (Init example_config (static_state True))) =
     Inr (hw (Init example_config (static_state True)) @
          [Pwm_channel_init
             \<lparr>channel = 0, ul_prescaler = PWM_CMR_CPRE_CLKA, alignment = PWM_ALIGN_LEFT,
              ul_period = 4545, ul_duty = 2272\<rparr>,
           PWM_CMR_set_DTE,
           PWM_DT_write (454 * 65536 + 454),
           PWM_DTUPD_write (454 * 65536 + 454),
           Pwm_channel_enable 0,
           Pio_configure PIO_PERIPH_A [PIO_PB0],
           Pio_configure PIO_PERIPH_B [PIO_PB5]]) \<and>
     map_sum id beepTicksToGo
       (Beep example_config 440 100 9 (Init example_config (static_state True))) = Inr 100"
    by (simp add: example_config_def Init_def static_state_def volumeTable_def Let_def)
  have f: "(440 :: u32) \<noteq> 0" by simp
  from nz above five f idle same prog show ?thesis by blast
qed

section \<open>The backlight mapper\<close>

lemma backlightPeriod_val: "backlightPeriod cfg = (if IS_ER cfg then 100 else 6666)"
  by (simp add: backlightPeriod_def backlightPwmFrequency_def pwmClockFrequency_def)

lemma minPwm_ER: "IS_ER cfg \<Longrightarrow> minPwm cfg = 56"
proof -
  assume "IS_ER cfg"
  then have "backlightPeriod cfg = 100" by (simp add: backlightPeriod_val)
  moreover have "\<lfloor>(100 :: rat) * (33 / 10 - 145 / 100) / (33 / 10)\<rfloor> = 56"
    by (simp add: floor_eq_iff)
  ultimately show ?thesis by (simp add: minPwm_def)
qed

lemma maxPwm_ER: "IS_ER cfg \<Longrightarrow> maxPwm cfg = 78"
proof -
  assume "IS_ER cfg"
  then have "backlightPeriod cfg = 100" by (simp add: backlightPeriod_val)
  moreover have "\<lfloor>(100 :: rat) * (33 / 10 - 7 / 10) / (33 / 10)\<rfloor> = 78"
    by (simp add: floor_eq_iff)
  ultimately show ?thesis by (simp add: maxPwm_def)
qed

text \<open>Scaling by the remaining brightness, without wrap-around.\<close>

lemma unat_scaled:
  fixes c m b :: u32
  assumes "m \<noteq> 0" "unat c * unat m < 2 ^ 32" "b \<le> m"
  shows "unat ((c * (m - b)) div m) = (unat c * (unat m - unat b)) div unat m"
proof -
  have sub: "unat (m - b) = unat m - unat b" using assms(3) by (rule unat_sub)
  have "unat c * (unat m - unat b) \<le> unat c * unat m" by simp
  then have "unat c * (unat m - unat b) < 2 ^ 32" using assms(2) by (rule le_less_trans)
  then have "unat c * unat (m - b) < 2 ^ 32" using sub by simp
  then have "unat (c * (m - b)) = unat c * unat (m - b)"
    by (simp add: unat_mult_lem [THEN iffD1])
  then show ?thesis by (simp add: unat_div sub)
qed

lemma scaled_nat_bounds:
  fixes c m b b' :: nat
  assumes "0 < m"
  shows "(c * (m - b)) div m \<le> c"
    and "b \<le> b' \<Longrightarrow> (c * (m - b')) div m \<le> (c * (m - b)) div m"
proof -
  have "c * (m - b) \<le> c * m" by simp
  then have "(c * (m - b)) div m \<le> (c * m) div m" by (rule div_le_mono)
  then show "(c * (m - b)) div m \<le> c" using assms by simp
  assume "b \<le> b'"
  then have "m - b' \<le> m - b" by arith
  then have "c * (m - b') \<le> c * (m - b)" by (rule mult_le_mono2)
  then show "(c * (m - b')) div m \<le> (c * (m - b)) div m" by (rule div_le_mono)
qed

lemma unat_duty_full:
  assumes "MaxBrightness cfg \<noteq> 0"
    and "unat (backlightPeriod cfg - 1) * unat (MaxBrightness cfg) < 2 ^ 32"
    and "b \<le> MaxBrightness cfg"
  shows "unat (duty_full cfg b) =
         (unat (backlightPeriod cfg - 1) * (unat (MaxBrightness cfg) - unat b))
           div unat (MaxBrightness cfg)"
  unfolding duty_full_def using assms by (rule unat_scaled)

lemma duty_full_ends:
  assumes "MaxBrightness cfg \<noteq> 0"
    and "unat (backlightPeriod cfg - 1) * unat (MaxBrightness cfg) < 2 ^ 32"
  shows "duty_full cfg 0 = backlightPeriod cfg - 1" and "duty_full cfg (MaxBrightness cfg) = 0"
proof -
  have pos: "0 < unat (MaxBrightness cfg)" using assms(1) by (simp add: unat_gt_0)
  have "unat (duty_full cfg 0) = unat (backlightPeriod cfg - 1)"
    using unat_duty_full [OF assms, of 0] pos by simp
  then show "duty_full cfg 0 = backlightPeriod cfg - 1" by (simp add: word_unat_eq_iff)
  show "duty_full cfg (MaxBrightness cfg) = 0" by (simp add: duty_full_def)
qed

lemma duty_full_antitone:
  assumes "MaxBrightness cfg \<noteq> 0"
    and "unat (backlightPeriod cfg - 1) * unat (MaxBrightness cfg) < 2 ^ 32"
    and "b \<le> b'" "b' \<le> MaxBrightness cfg"
  shows "duty_full cfg b' \<le> duty_full cfg b"
proof -
  have pos: "0 < unat (MaxBrightness cfg)" using assms(1) by (simp add: unat_gt_0)
  have b: "b \<le> MaxBrightness cfg" using assms(3,4) by simp
  have "unat b \<le> unat b'" using assms(3) by (simp add: word_le_nat_alt)
  then show ?thesis
    using unat_duty_full [OF assms(1,2) b] unat_duty_full [OF assms(1,2,4)]
      scaled_nat_bounds(2) [OF pos, of "unat b" "unat b'" "unat (backlightPeriod cfg - 1)"]
    by (simp add: word_le_nat_alt)
qed

lemma ER_range_no_overflow:
  assumes "IS_ER cfg" "unat (backlightPeriod cfg - 1) * unat (MaxBrightness cfg) < 2 ^ 32"
  shows "unat (maxPwm cfg - minPwm cfg) * unat (MaxBrightness cfg) < 2 ^ 32"
proof -
  have "unat (backlightPeriod cfg - 1) = 99" using assms(1) by (simp add: backlightPeriod_val)
  moreover have "unat (maxPwm cfg - minPwm cfg) = 22"
    using assms(1) by (simp add: minPwm_ER maxPwm_ER)
  ultimately show ?thesis using assms(2) by simp
qed

lemma unat_duty_clamped:
  assumes "IS_ER cfg" "MaxBrightness cfg \<noteq> 0"
    and "unat (backlightPeriod cfg - 1) * unat (MaxBrightness cfg) < 2 ^ 32"
    and "b \<le> MaxBrightness cfg"
  shows "unat (duty_clamped cfg b) =
         56 + (22 * (unat (MaxBrightness cfg) - unat b)) div unat (MaxBrightness cfg)"
proof -
  let ?q = "((maxPwm cfg - minPwm cfg) * (MaxBrightness cfg - b)) div MaxBrightness cfg"
  have pos: "0 < unat (MaxBrightness cfg)" using assms(2) by (simp add: unat_gt_0)
  have w: "unat (maxPwm cfg - minPwm cfg) = 22" using assms(1) by (simp add: minPwm_ER maxPwm_ER)
  have q: "unat ?q = (22 * (unat (MaxBrightness cfg) - unat b)) div unat (MaxBrightness cfg)"
    using unat_scaled [OF assms(2) ER_range_no_overflow [OF assms(1,3)] assms(4)] w by simp
  have "unat ?q \<le> 22"
    using scaled_nat_bounds(1) [OF pos, of 22 "unat b"] q by simp
  then have "unat (minPwm cfg) + unat ?q < 2 ^ 32" using assms(1) by (simp add: minPwm_ER)
  then have "unat (minPwm cfg + ?q) = unat (minPwm cfg) + unat ?q"
    by (simp add: unat_add_lem [THEN iffD1])
  then show ?thesis using q assms(1) by (simp add: duty_clamped_def minPwm_ER)
qed

lemma duty_clamped_range:
  assumes "IS_ER cfg" "MaxBrightness cfg \<noteq> 0"
    and "unat (backlightPeriod cfg - 1) * unat (MaxBrightness cfg) < 2 ^ 32"
    and "b \<le> MaxBrightness cfg"
  shows "minPwm cfg \<le> duty_clamped cfg b" and "duty_clamped cfg b \<le> maxPwm cfg"
proof -
  have pos: "0 < unat (MaxBrightness cfg)" using assms(2) by (simp add: unat_gt_0)
  have d: "unat (duty_clamped cfg b) =
      56 + (22 * (unat (MaxBrightness cfg) - unat b)) div unat (MaxBrightness cfg)"
    by (rule unat_duty_clamped [OF assms])
  then show "minPwm cfg \<le> duty_clamped cfg b"
    using assms(1) by (simp add: word_le_nat_alt minPwm_ER)
  show "duty_clamped cfg b \<le> maxPwm cfg"
    using d scaled_nat_bounds(1) [OF pos, of 22 "unat b"] assms(1)
    by (simp add: word_le_nat_alt maxPwm_ER)
qed

lemma duty_clamped_ends:
  assumes "IS_ER cfg" "MaxBrightness cfg \<noteq> 0"
    and "unat (backlightPeriod cfg - 1) * unat (MaxBrightness cfg) < 2 ^ 32"
  shows "duty_clamped cfg 0 = maxPwm cfg" and "duty_clamped cfg (MaxBrightness cfg) = minPwm cfg"
proof -
  have pos: "0 < unat (MaxBrightness cfg)" using assms(2) by (simp add: unat_gt_0)
  have "unat (duty_clamped cfg 0) = 78"
    using unat_duty_clamped [OF assms, of 0] pos by simp
  then show "duty_clamped cfg 0 = maxPwm cfg"
    using assms(1) by (simp add: word_unat_eq_iff maxPwm_ER)
  show "duty_clamped cfg (MaxBrightness cfg) = minPwm cfg" by (simp add: duty_clamped_def)
qed

lemma duty_clamped_antitone:
  assumes "IS_ER cfg" "MaxBrightness cfg \<noteq> 0"
    and "unat (backlightPeriod cfg - 1) * unat (MaxBrightness cfg) < 2 ^ 32"
    and "b \<le> b'" "b' \<le> MaxBrightness cfg"
  shows "duty_clamped cfg b' \<le> duty_clamped cfg b"
proof -
  have pos: "0 < unat (MaxBrightness cfg)" using assms(2) by (simp add: unat_gt_0)
  have b: "b \<le> MaxBrightness cfg" using assms(4,5) by simp
  have "unat b \<le> unat b'" using assms(4) by (simp add: word_le_nat_alt)
  then show ?thesis
    using unat_duty_clamped [OF assms(1,2,3) b] unat_duty_clamped [OF assms(1,2,3,5)]
      scaled_nat_bounds(2) [OF pos, of "unat b" "unat b'" 22]
    by (simp add: word_le_nat_alt)
qed

lemma SetBacklight_result:
  assumes "MaxBrightness cfg \<noteq> 0"
  shows "SetBacklight cfg b s =
         Inr (s\<lparr> backlight_pwm_channel_instance :=
                   (backlight_pwm_channel_instance s)
                     \<lparr>ul_period := backlightPeriod cfg,
                      ul_duty := backlight_duty cfg (PB13 s) b\<rparr>,
                 hw := hw s @
                   [Pwm_channel_init
                      ((backlight_pwm_channel_instance s)
                         \<lparr>ul_period := backlightPeriod cfg,
                          ul_duty := backlight_duty cfg (PB13 s) b\<rparr>),
                    Pwm_channel_enable 1] \<rparr>)"
  using assms by (simp add: SetBacklight_def Let_def)

lemma programmed_duty_SetBacklight:
  "programmed_duty (SetBacklight cfg b s) =
   (if MaxBrightness cfg = 0 then None else Some (backlight_duty cfg (PB13 s) b))"
  by (simp add: programmed_duty_def SetBacklight_def Let_def)

text \<open>
  C5. With a MaxBrightness other than 0 for which \<open>(backlightPeriod - 1) * MaxBrightness\<close>
  fits in 32 bits, SetBacklight programs the duty that the formula selected by
  \<open>IS_ER\<close> and the pin gives. On the full-range path (not \<open>IS_ER\<close>, or the pin high)
  brightness 0 gives \<open>backlightPeriod - 1\<close>, brightness MaxBrightness gives 0, and for
  every brightness up to MaxBrightness the duty is
  \<open>(backlightPeriod - 1) * (MaxBrightness - brightness) / MaxBrightness\<close> over the natural
  numbers. On either path a higher brightness never gives a higher duty.
\<close>

theorem SetBacklight_inverted_linear:
  assumes "MaxBrightness cfg \<noteq> 0"
    and "unat (backlightPeriod cfg - 1) * unat (MaxBrightness cfg) < 2 ^ 32"
  shows "programmed_duty (SetBacklight cfg b s) = Some (backlight_duty cfg (PB13 s) b) \<and>
         (\<not> IS_ER cfg \<or> PB13 s \<longrightarrow>
            backlight_duty cfg (PB13 s) 0 = backlightPeriod cfg - 1 \<and>
            backlight_duty cfg (PB13 s) (MaxBrightness cfg) = 0 \<and>
            backlight_duty cfg (PB13 s) b =
              ((backlightPeriod cfg - 1) * (MaxBrightness cfg - b)) div MaxBrightness cfg \<and>
            (b \<le> MaxBrightness cfg \<longrightarrow>
               unat (backlight_duty cfg (PB13 s) b) =
                 (unat (backlightPeriod cfg - 1) * (unat (MaxBrightness cfg) - unat b))
                   div unat (MaxBrightness cfg))) \<and>
         (b \<le> b' \<and> b' \<le> MaxBrightness cfg \<longrightarrow>
            backlight_duty cfg (PB13 s) b' \<le> backlight_duty cfg (PB13 s) b)"
proof -
  have prog: "programmed_duty (SetBacklight cfg b s) = Some (backlight_duty cfg (PB13 s) b)"
    using assms(1) by (simp add: programmed_duty_SetBacklight)
  have full: "\<not> IS_ER cfg \<or> PB13 s \<longrightarrow>
            backlight_duty cfg (PB13 s) 0 = backlightPeriod cfg - 1 \<and>
            backlight_duty cfg (PB13 s) (MaxBrightness cfg) = 0 \<and>
            backlight_duty cfg (PB13 s) b =
              ((backlightPeriod cfg - 1) * (MaxBrightness cfg - b)) div MaxBrightness cfg \<and>
            (b \<le> MaxBrightness cfg \<longrightarrow>
               unat (backlight_duty cfg (PB13 s) b) =
                 (unat (backlightPeriod cfg - 1) * (unat (MaxBrightness cfg) - unat b))
                   div unat (MaxBrightness cfg))"
  proof
    assume "\<not> IS_ER cfg \<or> PB13 s"
    then have sel: "\<And>x. backlight_duty cfg (PB13 s) x = duty_full cfg x"
      by (auto simp: backlight_duty_def)
    show "backlight_duty cfg (PB13 s) 0 = backlightPeriod cfg - 1 \<and>
            backlight_duty cfg (PB13 s) (MaxBrightness cfg) = 0 \<and>
            backlight_duty cfg (PB13 s) b =
              ((backlightPeriod cfg - 1) * (MaxBrightness cfg - b)) div MaxBrightness cfg \<and>
            (b \<le> MaxBrightness cfg \<longrightarrow>
               unat (backlight_duty cfg (PB13 s) b) =
                 (unat (backlightPeriod cfg - 1) * (unat (MaxBrightness cfg) - unat b))
                   div unat (MaxBrightness cfg))"
      unfolding sel
      using duty_full_ends [OF assms] unat_duty_full [OF assms, of b]
      by (simp add: duty_full_def)
  qed
  have anti: "b \<le> b' \<and> b' \<le> MaxBrightness cfg \<longrightarrow>
            backlight_duty cfg (PB13 s) b' \<le> backlight_duty cfg (PB13 s) b"
  proof
    assume r: "b \<le> b' \<and> b' \<le> MaxBrightness cfg"
    show "backlight_duty cfg (PB13 s) b' \<le> backlight_duty cfg (PB13 s) b"
    proof (cases "IS_ER cfg \<and> \<not> PB13 s")
      case True
      then have "\<And>x. backlight_duty cfg (PB13 s) x = duty_clamped cfg x"
        by (simp add: backlight_duty_def)
      then show ?thesis using duty_clamped_antitone [OF _ assms, of b b'] True r by simp
    next
      case False
      then have "\<And>x. backlight_duty cfg (PB13 s) x = duty_full cfg x"
        by (auto simp: backlight_duty_def)
      then show ?thesis using duty_full_antitone [OF assms, of b b'] r by simp
    qed
  qed
  from prog full anti show ?thesis by blast
qed

theorem SetBacklight_inverted_linear_witness:
  "MaxBrightness example_config \<noteq> 0 \<and>
   unat (backlightPeriod example_config - 1) * unat (MaxBrightness example_config) < 2 ^ 32 \<and>
   \<not> IS_ER example_config \<and>
   (25 :: u32) \<le> MaxBrightness example_config \<and>
   (25 :: u32) \<le> 75 \<and> (75 :: u32) \<le> MaxBrightness example_config \<and>
   programmed_duty (SetBacklight example_config 25 (Init example_config (static_state True)))
     = Some 4998 \<and>
   backlight_duty example_config True 0 = 6665 \<and>
   backlight_duty example_config True 100 = 0 \<and>
   backlight_duty example_config True 75 \<le> backlight_duty example_config True 25"
  using SetBacklight_inverted_linear
    [of example_config 25 "Init example_config (static_state True)" 75]
  by (simp add: example_config_def Init_def static_state_def backlightPeriod_val
      backlight_duty_def duty_full_def)

text \<open>
  C6, as amended. On the \<open>IS_ER\<close> boards the period is 100, \<open>minPwm\<close> is 56 and \<open>maxPwm\<close>
  is 78. For every brightness up to MaxBrightness: when the pin reads high, which is the
  older inverter, the duty is linear over the full range,
  \<open>99 * (MaxBrightness - brightness) / MaxBrightness\<close>; when the pin reads low, which is
  the newer MP3302 inverter whose displays ground PB13, the duty is
  \<open>minPwm + (maxPwm - minPwm) * (MaxBrightness - brightness) / MaxBrightness\<close> and lies
  between \<open>minPwm\<close> and \<open>maxPwm\<close>.
\<close>

theorem SetBacklight_variant_formula:
  assumes "IS_ER cfg" "MaxBrightness cfg \<noteq> 0"
    and "unat (backlightPeriod cfg - 1) * unat (MaxBrightness cfg) < 2 ^ 32"
    and "b \<le> MaxBrightness cfg"
    and "PB13 s = PB13_of fitted"
  shows "backlightPeriod cfg = 100 \<and> minPwm cfg = 56 \<and> maxPwm cfg = 78 \<and>
         (\<exists>d. programmed_duty (SetBacklight cfg b s) = Some d \<and>
           (case fitted of
              Older_inverter \<Rightarrow>
                d = ((backlightPeriod cfg - 1) * (MaxBrightness cfg - b)) div MaxBrightness cfg \<and>
                unat d = (99 * (unat (MaxBrightness cfg) - unat b)) div unat (MaxBrightness cfg)
            | MP3302_inverter \<Rightarrow>
                d = minPwm cfg +
                    ((maxPwm cfg - minPwm cfg) * (MaxBrightness cfg - b)) div MaxBrightness cfg \<and>
                unat d =
                  56 + (22 * (unat (MaxBrightness cfg) - unat b)) div unat (MaxBrightness cfg) \<and>
                minPwm cfg \<le> d \<and> d \<le> maxPwm cfg))"
proof -
  have vals: "backlightPeriod cfg = 100 \<and> minPwm cfg = 56 \<and> maxPwm cfg = 78"
    using assms(1) by (simp add: backlightPeriod_val minPwm_ER maxPwm_ER)
  have prog: "programmed_duty (SetBacklight cfg b s) = Some (backlight_duty cfg (PB13 s) b)"
    using assms(2) by (simp add: programmed_duty_SetBacklight)
  show ?thesis
  proof (cases fitted)
    case Older_inverter
    then have "backlight_duty cfg (PB13 s) b = duty_full cfg b"
      using assms(1,5) by (simp add: backlight_duty_def PB13_of_def)
    then show ?thesis
      using vals prog Older_inverter unat_duty_full [OF assms(2,3,4)]
      by (simp add: duty_full_def)
  next
    case MP3302_inverter
    then have "backlight_duty cfg (PB13 s) b = duty_clamped cfg b"
      using assms(1,5) by (simp add: backlight_duty_def PB13_of_def)
    then show ?thesis
      using vals prog MP3302_inverter unat_duty_clamped [OF assms(1,2,3,4)]
        duty_clamped_range [OF assms(1,2,3,4)]
      by (simp add: duty_clamped_def)
  qed
qed

theorem SetBacklight_variant_formula_witness:
  "IS_ER example_config_ER \<and> MaxBrightness example_config_ER \<noteq> 0 \<and>
   unat (backlightPeriod example_config_ER - 1) * unat (MaxBrightness example_config_ER)
     < 2 ^ 32 \<and>
   (25 :: u32) \<le> MaxBrightness example_config_ER \<and>
   PB13 (static_state False) = PB13_of MP3302_inverter \<and>
   programmed_duty (SetBacklight example_config_ER 25 (static_state False)) = Some 72 \<and>
   minPwm example_config_ER \<le> 72 \<and> 72 \<le> maxPwm example_config_ER"
  using SetBacklight_variant_formula
    [of example_config_ER 25 "static_state False" MP3302_inverter]
  by (auto simp: example_config_ER_def static_state_def backlightPeriod_val PB13_of_def)

text \<open>
  C6 as stated fails: with the pin at the level of the newer inverter, brightness 0 gives
  the duty 78, which is \<open>maxPwm\<close>, where the full-range formula of the claim gives 99;
  with the pin at the level of the older inverter it gives 99, where the claim's
  confined formula gives 78.
\<close>

theorem SetBacklight_variant_counterexample:
  "IS_ER example_config_ER \<and>
   PB13 (set_PB13 (PB13_of MP3302_inverter) (Init example_config_ER (static_state True)))
     = PB13_of MP3302_inverter \<and>
   programmed_duty
     (SetBacklight example_config_ER 0
        (set_PB13 (PB13_of MP3302_inverter) (Init example_config_ER (static_state True))))
     = Some 78 \<and>
   spec_variant_duty example_config_ER MP3302_inverter 0 = 99 \<and>
   programmed_duty
     (SetBacklight example_config_ER 0
        (set_PB13 (PB13_of Older_inverter) (Init example_config_ER (static_state True))))
     = Some 99 \<and>
   spec_variant_duty example_config_ER Older_inverter 0 = 78"
  by (simp add: programmed_duty_SetBacklight backlight_duty_def duty_full_def duty_clamped_def
      spec_variant_duty_def PB13_of_def set_PB13_def backlightPeriod_val minPwm_ER maxPwm_ER
      example_config_ER_def)

text \<open>
  C7, as amended. Init configures the identification pin as an input with pull-up and
  stores nothing read from it: it commutes with a change of the pin. Every SetBacklight
  call reads the pin itself, so the duty it programs depends on the level of the pin at
  the time of that call and not on the level the pin had at Init.
\<close>

theorem SetBacklight_reads_pin_at_call:
  "programmed_duty (SetBacklight cfg b (set_PB13 p (Init cfg (set_PB13 q s)))) =
   programmed_duty (SetBacklight cfg b (set_PB13 p (Init cfg (set_PB13 q' s)))) \<and>
   programmed_duty (SetBacklight cfg b s) =
     (if MaxBrightness cfg = 0 then None else Some (backlight_duty cfg (PB13 s) b)) \<and>
   Init cfg (set_PB13 q s) = set_PB13 q (Init cfg s)"
  by (simp add: programmed_duty_SetBacklight set_PB13_def Init_def)

text \<open>
  C7 as stated fails: two runs with the pin high at Init, of which the second has the pin
  low when SetBacklight(0) is called, program the duties 99 and 78.
\<close>

theorem SetBacklight_pin_once_counterexample:
  "PB13 (Init example_config_ER (static_state True)) = True \<and>
   programmed_duty
     (SetBacklight example_config_ER 0 (Init example_config_ER (static_state True)))
     = Some 99 \<and>
   programmed_duty
     (SetBacklight example_config_ER 0
        (set_PB13 False (Init example_config_ER (static_state True))))
     = Some 78"
  by (simp add: programmed_duty_SetBacklight backlight_duty_def duty_full_def duty_clamped_def
      set_PB13_def Init_def static_state_def backlightPeriod_val minPwm_ER maxPwm_ER
      example_config_ER_def)

end
